theory Spec2Isabelle
  imports Complex_Main "HOL-Library.Sublist"
begin

section \<open>Python values, exceptions and HTTP responses\<close>

text \<open>
  The values that flow through \<^verbatim>\<open>agent.py\<close>: what \<^verbatim>\<open>request.json\<close> yields (the
  Python image of a JSON document), what the agent's response object carries in its
  \<^verbatim>\<open>text\<close> attribute, and what is handed to \<^verbatim>\<open>jsonify\<close>.
  A dict is the list of its items in insertion order (keys are distinct in a dict built
  by the JSON decoder); a finite float is the rational number it denotes (only whether
  it is zero matters below); \<open>PObj c\<close> is any other object, of class \<open>c\<close>, which the
  JSON provider cannot serialise.
\<close>

datatype pyval =
    PNone
  | PBool bool
  | PInt int
  | PFloat rat
  | PStr string
  | PList "pyval list"
  | PDict "(string \<times> pyval) list"
  | PObj string

text \<open>
  A raised exception, with its class name and the value of \<^verbatim>\<open>str(e)\<close>.
  \<open>Exc\<close> is an instance of \<^verbatim>\<open>Exception\<close> (or of a subclass);
  \<open>BaseExc\<close> is an instance of \<^verbatim>\<open>BaseException\<close> that is not an
  \<^verbatim>\<open>Exception\<close>: \<^verbatim>\<open>SystemExit\<close>, \<^verbatim>\<open>KeyboardInterrupt\<close>, \<^verbatim>\<open>GeneratorExit\<close>.
\<close>

datatype pyexn =
    Exc string string
  | BaseExc string string

fun exn_str :: "pyexn \<Rightarrow> string" where
  "exn_str (Exc c m) = m"
| "exn_str (BaseExc c m) = m"

fun isinstance_Exception :: "pyexn \<Rightarrow> bool" where
  "isinstance_Exception (Exc c m) = True"
| "isinstance_Exception (BaseExc c m) = False"

text \<open>Python truth value testing, as used by \<^verbatim>\<open>if not user_query\<close>.\<close>

fun truthy :: "pyval \<Rightarrow> bool" where
  "truthy PNone = False"
| "truthy (PBool b) = b"
| "truthy (PInt i) = (i \<noteq> 0)"
| "truthy (PFloat x) = (x \<noteq> 0)"
| "truthy (PStr s) = (s \<noteq> [])"
| "truthy (PList xs) = (xs \<noteq> [])"
| "truthy (PDict kvs) = (kvs \<noteq> [])"
| "truthy (PObj c) = True"

fun type_name :: "pyval \<Rightarrow> string" where
  "type_name PNone = ''NoneType''"
| "type_name (PBool b) = ''bool''"
| "type_name (PInt i) = ''int''"
| "type_name (PFloat x) = ''float''"
| "type_name (PStr s) = ''str''"
| "type_name (PList xs) = ''list''"
| "type_name (PDict kvs) = ''dict''"
| "type_name (PObj c) = c"

text \<open>
  \<^verbatim>\<open>data.get(key)\<close>: on a dict the value stored under the key, or \<^verbatim>\<open>None\<close>; any
  other value that \<^verbatim>\<open>request.json\<close> can yield has no attribute \<^verbatim>\<open>get\<close>, and the
  attribute access raises \<^verbatim>\<open>AttributeError\<close>.
\<close>

fun py_get :: "pyval \<Rightarrow> string \<Rightarrow> pyexn + pyval" where
  "py_get (PDict kvs) key = Inr (case map_of kvs key of None \<Rightarrow> PNone | Some v \<Rightarrow> v)"
| "py_get v key =
     Inl (Exc ''AttributeError''
            ([CHR 0x27] @ type_name v @ ''' object has no attribute 'get'' @ [CHR 0x27]))"

text \<open>
  The JSON provider walks the value depth first and raises \<^verbatim>\<open>TypeError\<close> at the first
  object it cannot serialise; \<open>unserializable\<close> finds the class of that object.
\<close>

fun unserializable :: "pyval \<Rightarrow> string option"
  and unserializable_list :: "pyval list \<Rightarrow> string option"
  and unserializable_items :: "(string \<times> pyval) list \<Rightarrow> string option" where
  "unserializable (PObj c) = Some c"
| "unserializable (PList xs) = unserializable_list xs"
| "unserializable (PDict kvs) = unserializable_items kvs"
| "unserializable PNone = None"
| "unserializable (PBool b) = None"
| "unserializable (PInt i) = None"
| "unserializable (PFloat x) = None"
| "unserializable (PStr s) = None"
| "unserializable_list [] = None"
| "unserializable_list (x # xs) =
     (case unserializable x of Some c \<Rightarrow> Some c | None \<Rightarrow> unserializable_list xs)"
| "unserializable_items [] = None"
| "unserializable_items (kv # kvs) =
     (case unserializable (snd kv) of Some c \<Rightarrow> Some c | None \<Rightarrow> unserializable_items kvs)"

record 'b response =
  status :: nat
  mimetype :: string
  body :: 'b

text \<open>
  \<^verbatim>\<open>jsonify(v)\<close>: a response of status 200 and JSON content type whose body is the
  document \<open>v\<close>, or the provider's \<^verbatim>\<open>TypeError\<close>.
\<close>

definition jsonify :: "pyval \<Rightarrow> pyexn + pyval response" where
  "jsonify v =
     (case unserializable v of
        Some c \<Rightarrow> Inl (Exc ''TypeError'' (''Object of type '' @ c @ '' is not JSON serializable''))
      | None \<Rightarrow> Inr \<lparr>status = 200, mimetype = ''application/json'', body = v\<rparr>)"

text \<open>A view's return value \<^verbatim>\<open>(rv, code)\<close>: the response \<open>rv\<close> with its status replaced.\<close>

definition with_status :: "'b response \<Rightarrow> nat \<Rightarrow> 'b response" where
  "with_status rv code = rv\<lparr>status := code\<rparr>"

section \<open>Agent definition\<close>

text \<open>
  The configuration handed to the agent framework's \<^verbatim>\<open>Agent\<close> constructor. The
  instruction text \<^verbatim>\<open>prompt.BIGQUERY_PROMPT\<close> and the tool
  \<^verbatim>\<open>tools.query_bigquery\<close> live in modules outside this file and are parameters.
\<close>

record 'tool Agent =
  name :: string
  model :: string
  description :: string
  instruction :: string
  tools :: "'tool list"

type_synonym environ = "string \<rightharpoonup> string"

text \<open>
  \<^verbatim>\<open>load_dotenv()\<close> adds the variables of the \<^verbatim>\<open>.env\<close> file to the process
  environment; a variable that is already set keeps its value.
\<close>

definition load_dotenv :: "environ \<Rightarrow> environ \<Rightarrow> environ" where
  "load_dotenv dotenv env = dotenv ++ env"

definition ROOT_AGENT_MODEL :: "environ \<Rightarrow> string" where
  "ROOT_AGENT_MODEL env =
     (case env ''ROOT_AGENT_MODEL'' of Some v \<Rightarrow> v | None \<Rightarrow> ''gemini-2.5-flash'')"

definition root_agent :: "environ \<Rightarrow> string \<Rightarrow> 'tool \<Rightarrow> 'tool Agent" where
  "root_agent env BIGQUERY_PROMPT query_bigquery =
     \<lparr>name = ''bigquery_agent'',
      model = ROOT_AGENT_MODEL env,
      description = ''An agent that understands questions about a BigQuery database, generates SQL, executes it, and provides answers.'',
      instruction = BIGQUERY_PROMPT,
      tools = [query_bigquery]\<rparr>"

section \<open>Process state and the agent adapter\<close>

text \<open>
  The state of the server process: the module-level agent object, everything outside
  the process that an agent invocation can read or change (\<open>world\<close>: the model
  service, the warehouse), and a trace of the invocations made so far, each recorded
  with the query it was given.
\<close>

record ('tool, 'w) process =
  agent :: "'tool Agent"
  world :: 'w
  calls :: "pyval list"

text \<open>
  Importing the module: the \<^verbatim>\<open>.env\<close> file is loaded, then the agent is built, once.
\<close>

definition startup ::
  "environ \<Rightarrow> environ \<Rightarrow> string \<Rightarrow> 'tool \<Rightarrow> 'w \<Rightarrow> ('tool, 'w) process" where
  "startup dotenv env BIGQUERY_PROMPT query_bigquery w =
     \<lparr>agent = root_agent (load_dotenv dotenv env) BIGQUERY_PROMPT query_bigquery,
      world = w,
      calls = []\<rparr>"

text \<open>
  The framework's \<^verbatim>\<open>generate_response\<close> is not part of this program: it is a
  parameter that, given the agent, the query and the world, raises or returns an
  object with a \<^verbatim>\<open>text\<close> attribute, and leaves a new world.
\<close>

record agent_response =
  text_attr :: pyval

type_synonym ('tool, 'w) adapter =
  "'tool Agent \<Rightarrow> pyval \<Rightarrow> 'w \<Rightarrow> (pyexn + agent_response) \<times> 'w"

definition generate_response ::
  "('tool, 'w) adapter \<Rightarrow> pyval \<Rightarrow> ('tool, 'w) process
     \<Rightarrow> (pyexn + agent_response) \<times> ('tool, 'w) process" where
  "generate_response adapter query s =
     (case adapter (agent s) query (world s) of
        (r, w') \<Rightarrow> (r, s\<lparr>world := w', calls := calls s @ [query]\<rparr>))"

section \<open>Web server: the agent endpoint\<close>

text \<open>
  A request to \<^verbatim>\<open>POST /agent\<close>, as the handler sees it: what evaluating
  \<^verbatim>\<open>request.json\<close> does. It raises (the body is not valid JSON, or the content type
  is not JSON) or yields the decoded document.
\<close>

record request =
  json :: "pyexn + pyval"

text \<open>The body of the \<^verbatim>\<open>try\<close> block of \<^verbatim>\<open>agent_handler\<close>.\<close>

definition agent_handler_try ::
  "('tool, 'w) adapter \<Rightarrow> request \<Rightarrow> ('tool, 'w) process
     \<Rightarrow> (pyexn + pyval response) \<times> ('tool, 'w) process" where
  "agent_handler_try adapter req s =
     (case json req of
        Inl e \<Rightarrow> (Inl e, s)
      | Inr data \<Rightarrow>
          (case py_get data ''query'' of
             Inl e \<Rightarrow> (Inl e, s)
           | Inr user_query \<Rightarrow>
               if \<not> truthy user_query then
                 (case jsonify (PDict [(''error'', PStr ''Missing 'query' field in request'')]) of
                    Inl e \<Rightarrow> (Inl e, s)
                  | Inr rv \<Rightarrow> (Inr (with_status rv 400), s))
               else
                 (case generate_response adapter user_query s of
                    (Inl e, s') \<Rightarrow> (Inl e, s')
                  | (Inr response_data, s') \<Rightarrow>
                      (let response_text = text_attr response_data in
                       case jsonify (PDict [(''response'', response_text),
                                            (''status'', PStr ''ok'')]) of
                         Inl e \<Rightarrow> (Inl e, s')
                       | Inr rv \<Rightarrow> (Inr rv, s')))))"

text \<open>
  The handler: the \<^verbatim>\<open>try\<close> block under \<^verbatim>\<open>except Exception as e\<close>. The result
  is the response sent, or the exception that leaves the handler.
\<close>

definition agent_handler ::
  "('tool, 'w) adapter \<Rightarrow> request \<Rightarrow> ('tool, 'w) process
     \<Rightarrow> (pyexn + pyval response) \<times> ('tool, 'w) process" where
  "agent_handler adapter req s =
     (case agent_handler_try adapter req s of
        (Inr rv, s') \<Rightarrow> (Inr rv, s')
      | (Inl e, s') \<Rightarrow>
          if isinstance_Exception e then
            (case jsonify (PDict [(''error'', PStr (exn_str e))]) of
               Inl e' \<Rightarrow> (Inl e', s')
             | Inr rv \<Rightarrow> (Inr (with_status rv 500), s'))
          else (Inl e, s'))"

section \<open>Web server: the chat page\<close>

text \<open>
  The HTML of the chat UI: the module's triple-quoted literal, line by line; every
  line, the empty one after the opening quotes included, ends in a newline.
\<close>

definition CHAT_UI_HTML :: string where
  \<open>CHAT_UI_HTML = concat (map (\<lambda>l. l @ ''\<newline>'') [
     '''',
     ''<!DOCTYPE html>'',
     ''<html lang="en">'',
     ''<head>'',
     ''    <meta charset="UTF-8">'',
     ''    <meta name="viewport" content="width=device-width, initial-scale=1.0">'',
     ''    <title>Dixie Agent</title>'',
     ''    <script src="https://cdn.tailwindcss.com"></script>'',
     ''    <style>'',
     ''        body { font-family: 'Inter', sans-serif; }'',
     ''    </style>'',
     ''</head>'',
     ''<body class="bg-gray-100 dark:bg-gray-900 text-gray-900 dark:text-gray-100 flex items-center justify-center min-h-screen">'',
     ''    <div class="w-full max-w-2xl bg-white dark:bg-gray-800 rounded-lg shadow-lg p-6 m-4">'',
     ''        <h1 class="text-2xl font-bold text-center mb-6">Dixie Agent</h1>'',
     ''        '',
     ''        <!-- Chat History -->'',
     ''        <div id="chat-history" class="h-96 overflow-y-auto mb-4 p-4 border border-gray-200 dark:border-gray-700 rounded-lg bg-gray-50 dark:bg-gray-700">'',
     ''            <div class="flex items-start mb-4">'',
     ''                <div class="bg-blue-500 text-white rounded-xl p-3 shadow-md">'',
     ''                    Hello! I am Dixie, an AI recruiting assistant. How can I help you find talent today?'',
     ''                </div>'',
     ''            </div>'',
     ''        </div>'',
     '''',
     ''        <!-- Input Form -->'',
     ''        <div class="flex items-center space-x-2">'',
     ''            <input type="text" id="user-input" placeholder="Type your message..." class="flex-grow p-3 border border-gray-300 dark:border-gray-600 rounded-lg focus:outline-none focus:ring-2 focus:ring-blue-500 dark:bg-gray-900">'',
     ''            <button id="send-button" class="bg-blue-500 hover:bg-blue-600 text-white font-bold py-3 px-6 rounded-lg transition duration-200 ease-in-out">'',
     ''                Send'',
     ''            </button>'',
     ''        </div>'',
     ''        '',
     ''    </div>'',
     '''',
     ''    <script>'',
     ''        const chatHistory = document.getElementById('chat-history');'',
     ''        const userInput = document.getElementById('user-input');'',
     ''        const sendButton = document.getElementById('send-button');'',
     ''        '',
     ''        // This is a more robust way to handle a root URL'',
     ''        const backendUrl = window.location.origin;'',
     '''',
     ''        // Function to create a message bubble'',
     ''        function addMessage(text, isUser) {'',
     ''            const messageDiv = document.createElement('div');'',
     ''            messageDiv.className = `flex mb-4 ${isUser ? 'justify-end' : 'justify-start'}`;'',
     ''            '',
     ''            const bubbleDiv = document.createElement('div');'',
     ''            bubbleDiv.className = `max-w-md p-3 rounded-xl shadow-md ${isUser ? 'bg-blue-500 text-white' : 'bg-gray-200 dark:bg-gray-600 text-gray-900 dark:text-white'}`;'',
     ''            bubbleDiv.textContent = text;'',
     ''            '',
     ''            messageDiv.appendChild(bubbleDiv);'',
     ''            chatHistory.appendChild(messageDiv);'',
     ''            chatHistory.scrollTop = chatHistory.scrollHeight; // Scroll to the bottom'',
     ''        }'',
     '''',
     ''        async function sendMessage() {'',
     ''            const query = userInput.value.trim();'',
     ''            if (!query) return;'',
     '''',
     ''            addMessage(query, true); // Add user's message to chat'',
     ''            userInput.value = '' @ [CHR 0x27] @ [CHR 0x27] @ ''; // Clear input field'',
     '''',
     ''            // Show a loading indicator'',
     ''            addMessage("Thinking...", false);'',
     ''            const thinkingMessage = chatHistory.lastChild.querySelector('div');'',
     ''            '',
     ''            try {'',
     ''                const apiPath = '/agent';'',
     '''',
     ''                const response = await fetch(backendUrl + apiPath, {'',
     ''                    method: 'POST','',
     ''                    headers: {'',
     ''                        'Content-Type': 'application/json'' @ [CHR 0x27],
     ''                    },'',
     ''                    body: JSON.stringify({ query: query })'',
     ''                });'',
     '''',
     ''                const data = await response.json();'',
     '''',
     ''                // Remove loading indicator and display actual response'',
     ''                chatHistory.removeChild(chatHistory.lastChild);'',
     ''                if (response.ok) {'',
     ''                    addMessage(data.response, false);'',
     ''                } else {'',
     ''                    addMessage(`Error: ${data.error}`, false);'',
     ''                }'',
     '''',
     ''            } catch (error) {'',
     ''                chatHistory.removeChild(chatHistory.lastChild);'',
     ''                addMessage(`An error occurred: ${error.message}`, false);'',
     ''            }'',
     ''        }'',
     '''',
     ''        sendButton.addEventListener('click', sendMessage);'',
     ''        userInput.addEventListener('keypress', (e) => {'',
     ''            if (e.key === 'Enter') {'',
     ''                sendMessage();'',
     ''            }'',
     ''        });'',
     ''    </script>'',
     ''</body>'',
     ''</html>''])\<close>

text \<open>
  \<^verbatim>\<open>render_template_string\<close> hands the text to the template engine. The engine
  starts an expression, a statement or a comment at \<^verbatim>\<open>{{\<close>, \<^verbatim>\<open>{%\<close> or \<^verbatim>\<open>{#\<close>;
  a template with none of them is plain data and is rendered as it is, less one
  trailing newline, which the engine drops. What the engine does with a template that
  has template syntax is the parameter \<open>engine\<close>.
\<close>

fun has_template_syntax :: "string \<Rightarrow> bool" where
  "has_template_syntax (c # d # cs) =
     ((c = CHR ''{'' \<and> (d = CHR ''{'' \<or> d = CHR ''%'' \<or> d = CHR ''#''))
      \<or> has_template_syntax (d # cs))"
| "has_template_syntax cs = False"

definition strip_trailing_newline :: "string \<Rightarrow> string" where
  "strip_trailing_newline t =
     (if t \<noteq> [] \<and> last t = CHR ''\<newline>'' then butlast t else t)"

definition render_template_string ::
  "(string \<Rightarrow> pyexn + string) \<Rightarrow> string \<Rightarrow> pyexn + string" where
  "render_template_string engine t =
     (if has_template_syntax t then engine t else Inr (strip_trailing_newline t))"

text \<open>A view that returns a string: a response of status 200 and HTML content type.\<close>

definition make_response :: "string \<Rightarrow> string response" where
  "make_response s = \<lparr>status = 200, mimetype = ''text/html'', body = s\<rparr>"

definition serve_ui :: "(string \<Rightarrow> pyexn + string) \<Rightarrow> pyexn + string response" where
  "serve_ui engine =
     (case render_template_string engine CHAT_UI_HTML of
        Inl e \<Rightarrow> Inl e
      | Inr page \<Rightarrow> Inr (make_response page))"

section \<open>Properties of the request handling\<close>

subsection \<open>What the try block and the handler compute\<close>

text \<open>
  The two error documents always serialise. The \<^verbatim>\<open>try\<close> block is then described
  path by path, and the handler as the \<^verbatim>\<open>try\<close> block followed by the
  \<^verbatim>\<open>except\<close> clause.
\<close>

lemma jsonify_error:
  "jsonify (PDict [(''error'', PStr m)]) =
     Inr \<lparr>status = 200, mimetype = ''application/json'', body = PDict [(''error'', PStr m)]\<rparr>"
  by (simp add: jsonify_def)

lemma jsonify_ok:
  "jsonify (PDict [(''response'', t), (''status'', PStr ''ok'')]) =
     (case unserializable t of
        Some c \<Rightarrow> Inl (Exc ''TypeError'' (''Object of type '' @ c @ '' is not JSON serializable''))
      | None \<Rightarrow> Inr \<lparr>status = 200, mimetype = ''application/json'',
                      body = PDict [(''response'', t), (''status'', PStr ''ok'')]\<rparr>)"
  by (simp add: jsonify_def split: option.splits)

lemma try_raises_json:
  "json req = Inl e \<Longrightarrow> agent_handler_try adapter req s = (Inl e, s)"
  by (simp add: agent_handler_try_def)

lemma try_not_dict:
  "json req = Inr v \<Longrightarrow> \<forall>kvs. v \<noteq> PDict kvs \<Longrightarrow>
   agent_handler_try adapter req s =
     (Inl (Exc ''AttributeError''
        ([CHR 0x27] @ type_name v @ ''' object has no attribute 'get'' @ [CHR 0x27])), s)"
  by (cases v) (simp_all add: agent_handler_try_def)

lemma try_falsy:
  "json req = Inr (PDict kvs) \<Longrightarrow>
   \<not> truthy (case map_of kvs ''query'' of None \<Rightarrow> PNone | Some v \<Rightarrow> v) \<Longrightarrow>
   agent_handler_try adapter req s =
     (Inr \<lparr>status = 400, mimetype = ''application/json'',
           body = PDict [(''error'', PStr ''Missing 'query' field in request'')]\<rparr>, s)"
  by (simp add: agent_handler_try_def jsonify_error with_status_def)

lemma try_truthy:
  "json req = Inr (PDict kvs) \<Longrightarrow> map_of kvs ''query'' = Some q \<Longrightarrow> truthy q \<Longrightarrow>
   agent_handler_try adapter req s =
     (case adapter (agent s) q (world s) of
        (Inl e, w') \<Rightarrow> (Inl e, s\<lparr>world := w', calls := calls s @ [q]\<rparr>)
      | (Inr rd, w') \<Rightarrow>
          (case unserializable (text_attr rd) of
             Some c \<Rightarrow> (Inl (Exc ''TypeError'' (''Object of type '' @ c @ '' is not JSON serializable'')),
                         s\<lparr>world := w', calls := calls s @ [q]\<rparr>)
           | None \<Rightarrow> (Inr \<lparr>status = 200, mimetype = ''application/json'',
                      body = PDict [(''response'', text_attr rd), (''status'', PStr ''ok'')]\<rparr>,
                      s\<lparr>world := w', calls := calls s @ [q]\<rparr>)))"
  by (simp add: agent_handler_try_def generate_response_def jsonify_ok
           split: prod.splits sum.splits option.splits)

lemma handler_of_try:
  "agent_handler adapter req s =
     (case agent_handler_try adapter req s of
        (Inr rv, s') \<Rightarrow> (Inr rv, s')
      | (Inl (Exc c m), s') \<Rightarrow>
          (Inr \<lparr>status = 500, mimetype = ''application/json'',
                body = PDict [(''error'', PStr m)]\<rparr>, s')
      | (Inl (BaseExc c m), s') \<Rightarrow> (Inl (BaseExc c m), s'))"
  by (simp add: agent_handler_def jsonify_error with_status_def
           split: prod.splits sum.splits pyexn.splits)

lemma try_no_call:
  assumes "json req = Inl e \<or> (\<exists>d. json req = Inr d \<and>
             (py_get d ''query'' = Inl e \<or> (\<exists>q. py_get d ''query'' = Inr q \<and> \<not> truthy q)))"
  shows "snd (agent_handler_try adapter req s) = s
     \<and> (fst (agent_handler_try adapter req s) =
            Inr \<lparr>status = 400, mimetype = ''application/json'',
                  body = PDict [(''error'', PStr ''Missing 'query' field in request'')]\<rparr>
          \<or> fst (agent_handler_try adapter req s) = Inl e)"
  using assms
  by (auto simp: agent_handler_try_def jsonify_error with_status_def)

lemma try_call:
  assumes "json req = Inr d" and "py_get d ''query'' = Inr q" and "truthy q"
  shows "agent_handler_try adapter req s =
     (case fst (adapter (agent s) q (world s)) of
        Inl e \<Rightarrow> Inl e
      | Inr rd \<Rightarrow>
          (case unserializable (text_attr rd) of
             Some c \<Rightarrow> Inl (Exc ''TypeError'' (''Object of type '' @ c @ '' is not JSON serializable''))
           | None \<Rightarrow> Inr \<lparr>status = 200, mimetype = ''application/json'',
                      body = PDict [(''response'', text_attr rd), (''status'', PStr ''ok'')]\<rparr>),
      s\<lparr>world := snd (adapter (agent s) q (world s)), calls := calls s @ [q]\<rparr>)"
  using assms
  by (simp add: agent_handler_try_def generate_response_def jsonify_ok
           split: prod.splits sum.splits option.splits)

lemma try_cases [consumes 1, case_names invalid early_raise raised returned not_serializable]:
  assumes "agent_handler_try adapter req s = (r, s')"
  obtains
    "s' = s" and
      "r = Inr \<lparr>status = 400, mimetype = ''application/json'',
                body = PDict [(''error'', PStr ''Missing 'query' field in request'')]\<rparr>"
  | e where "s' = s" and "r = Inl e"
  | q e where "s' = s\<lparr>world := snd (adapter (agent s) q (world s)), calls := calls s @ [q]\<rparr>"
      and "fst (adapter (agent s) q (world s)) = Inl e" and "r = Inl e"
  | q rd where "s' = s\<lparr>world := snd (adapter (agent s) q (world s)), calls := calls s @ [q]\<rparr>"
      and "fst (adapter (agent s) q (world s)) = Inr rd"
      and "unserializable (text_attr rd) = None"
      and "r = Inr \<lparr>status = 200, mimetype = ''application/json'',
                    body = PDict [(''response'', text_attr rd), (''status'', PStr ''ok'')]\<rparr>"
  | q rd c where "s' = s\<lparr>world := snd (adapter (agent s) q (world s)), calls := calls s @ [q]\<rparr>"
      and "fst (adapter (agent s) q (world s)) = Inr rd"
      and "unserializable (text_attr rd) = Some c"
      and "r = Inl (Exc ''TypeError'' (''Object of type '' @ c @ '' is not JSON serializable''))"
proof (cases "\<exists>d q. json req = Inr d \<and> py_get d ''query'' = Inr q \<and> truthy q")
  case True
  then obtain d q where "json req = Inr d" "py_get d ''query'' = Inr q" "truthy q"
    by blast
  from try_call [OF this, of adapter s] assms
  have s': "s' = s\<lparr>world := snd (adapter (agent s) q (world s)), calls := calls s @ [q]\<rparr>"
    and r: "r = (case fst (adapter (agent s) q (world s)) of
        Inl e \<Rightarrow> Inl e
      | Inr rd \<Rightarrow>
          (case unserializable (text_attr rd) of
             Some c \<Rightarrow> Inl (Exc ''TypeError'' (''Object of type '' @ c @ '' is not JSON serializable''))
           | None \<Rightarrow> Inr \<lparr>status = 200, mimetype = ''application/json'',
                      body = PDict [(''response'', text_attr rd), (''status'', PStr ''ok'')]\<rparr>))"
    by simp_all
  show ?thesis
  proof (cases "fst (adapter (agent s) q (world s))")
    case (Inl e)
    with r have "r = Inl e" by simp
    with s' Inl show ?thesis by (rule that(3))
  next
    case (Inr rd)
    show ?thesis
    proof (cases "unserializable (text_attr rd)")
      case None
      with r Inr have "r = Inr \<lparr>status = 200, mimetype = ''application/json'',
                    body = PDict [(''response'', text_attr rd), (''status'', PStr ''ok'')]\<rparr>"
        by simp
      with s' Inr None show ?thesis by (rule that(4))
    next
      case (Some c)
      with r Inr
      have "r = Inl (Exc ''TypeError'' (''Object of type '' @ c @ '' is not JSON serializable''))"
        by simp
      with s' Inr Some show ?thesis by (rule that(5))
    qed
  qed
next
  case False
  have "\<exists>e. json req = Inl e \<or> (\<exists>d. json req = Inr d \<and>
             (py_get d ''query'' = Inl e \<or> (\<exists>q. py_get d ''query'' = Inr q \<and> \<not> truthy q)))"
  proof (cases "json req")
    case (Inl e)
    then show ?thesis by blast
  next
    case (Inr d)
    with False show ?thesis by (cases "py_get d ''query''") auto
  qed
  then obtain e where "json req = Inl e \<or> (\<exists>d. json req = Inr d \<and>
             (py_get d ''query'' = Inl e \<or> (\<exists>q. py_get d ''query'' = Inr q \<and> \<not> truthy q)))"
    by blast
  from try_no_call [OF this, of adapter s] assms
  have "s' = s" and "r = Inr \<lparr>status = 400, mimetype = ''application/json'',
                  body = PDict [(''error'', PStr ''Missing 'query' field in request'')]\<rparr>
          \<or> r = Inl e"
    by simp_all
  then show ?thesis using that(1) that(2) by blast
qed

lemma handler_cases [consumes 1, case_names invalid early_raise raised returned not_serializable]:
  assumes "agent_handler adapter req s = (r, s')"
  obtains
    "s' = s" and
      "r = Inr \<lparr>status = 400, mimetype = ''application/json'',
                body = PDict [(''error'', PStr ''Missing 'query' field in request'')]\<rparr>"
  | e where "s' = s"
      and "r = (if isinstance_Exception e
                then Inr \<lparr>status = 500, mimetype = ''application/json'',
                          body = PDict [(''error'', PStr (exn_str e))]\<rparr>
                else Inl e)"
  | q e where "s' = s\<lparr>world := snd (adapter (agent s) q (world s)), calls := calls s @ [q]\<rparr>"
      and "fst (adapter (agent s) q (world s)) = Inl e"
      and "r = (if isinstance_Exception e
                then Inr \<lparr>status = 500, mimetype = ''application/json'',
                          body = PDict [(''error'', PStr (exn_str e))]\<rparr>
                else Inl e)"
  | q rd where "s' = s\<lparr>world := snd (adapter (agent s) q (world s)), calls := calls s @ [q]\<rparr>"
      and "fst (adapter (agent s) q (world s)) = Inr rd"
      and "unserializable (text_attr rd) = None"
      and "r = Inr \<lparr>status = 200, mimetype = ''application/json'',
                    body = PDict [(''response'', text_attr rd), (''status'', PStr ''ok'')]\<rparr>"
  | q rd c where "s' = s\<lparr>world := snd (adapter (agent s) q (world s)), calls := calls s @ [q]\<rparr>"
      and "fst (adapter (agent s) q (world s)) = Inr rd"
      and "unserializable (text_attr rd) = Some c"
      and "r = Inr \<lparr>status = 500, mimetype = ''application/json'',
                    body = PDict [(''error'',
                      PStr (''Object of type '' @ c @ '' is not JSON serializable''))]\<rparr>"
proof -
  obtain r0 where t: "agent_handler_try adapter req s = (r0, s')"
    using assms by (auto simp: handler_of_try split: prod.splits sum.splits pyexn.splits)
  have r: "r = (case r0 of Inr rv \<Rightarrow> Inr rv
                | Inl e \<Rightarrow> if isinstance_Exception e
                    then Inr \<lparr>status = 500, mimetype = ''application/json'',
                              body = PDict [(''error'', PStr (exn_str e))]\<rparr>
                    else Inl e)"
    using assms t by (auto simp: handler_of_try split: sum.splits pyexn.splits)
  from t show ?thesis
  proof (cases rule: try_cases)
    case invalid
    with r show ?thesis using that(1) by simp
  next
    case (early_raise e)
    with r show ?thesis using that(2) [of e] by simp
  next
    case (raised q e)
    with r show ?thesis using that(3) [of q e] by simp
  next
    case (returned q rd)
    with r show ?thesis using that(4) [of q rd] by simp
  next
    case (not_serializable q rd c)
    with r show ?thesis using that(5) [of q rd c] by simp
  qed
qed

lemma handler_call:
  assumes "json req = Inr (PDict kvs)" and "map_of kvs ''query'' = Some q" and "truthy q"
  shows "agent_handler adapter req s =
     (case fst (adapter (agent s) q (world s)) of
        Inl e \<Rightarrow>
          if isinstance_Exception e
          then Inr \<lparr>status = 500, mimetype = ''application/json'',
                    body = PDict [(''error'', PStr (exn_str e))]\<rparr>
          else Inl e
      | Inr rd \<Rightarrow>
          (case unserializable (text_attr rd) of
             Some c \<Rightarrow> Inr \<lparr>status = 500, mimetype = ''application/json'',
                            body = PDict [(''error'',
                              PStr (''Object of type '' @ c @ '' is not JSON serializable''))]\<rparr>
           | None \<Rightarrow> Inr \<lparr>status = 200, mimetype = ''application/json'',
                      body = PDict [(''response'', text_attr rd), (''status'', PStr ''ok'')]\<rparr>),
      s\<lparr>world := snd (adapter (agent s) q (world s)), calls := calls s @ [q]\<rparr>)"
proof -
  have "py_get (PDict kvs) ''query'' = Inr q" using assms(2) by simp
  from try_call [OF assms(1) this assms(3), of adapter s] show ?thesis
    by (simp add: handler_of_try split: sum.splits option.splits pyexn.splits)
qed

lemma try_frame:
  assumes "agent t = agent t'" and "world t = world t'"
  shows "fst (agent_handler_try adapter req t) = fst (agent_handler_try adapter req t')"
  using assms
  by (simp add: agent_handler_try_def generate_response_def Let_def
           split: sum.splits prod.splits)

lemma handler_frame:
  assumes "agent t = agent t'" and "world t = world t'"
  shows "fst (agent_handler adapter req t) = fst (agent_handler adapter req t')"
proof -
  have "fst (agent_handler adapter req u) =
          (case fst (agent_handler_try adapter req u) of
             Inr rv \<Rightarrow> Inr rv
           | Inl (Exc c m) \<Rightarrow> Inr \<lparr>status = 500, mimetype = ''application/json'',
                                   body = PDict [(''error'', PStr m)]\<rparr>
           | Inl (BaseExc c m) \<Rightarrow> Inl (BaseExc c m))" for u :: "('a, 'b) process"
    by (simp add: handler_of_try split: prod.splits sum.splits pyexn.splits)
  then show ?thesis
    by (simp add: try_frame [OF assms])
qed

subsection \<open>The agent object\<close>



lemma handler_agent: "agent (snd (agent_handler adapter req s)) = agent s"
proof -
  obtain r s' where h: "agent_handler adapter req s = (r, s')"
    by (cases "agent_handler adapter req s")
  then have "agent s' = agent s"
    by (cases rule: handler_cases) simp_all
  with h show ?thesis by simp
qed

subsection \<open>The chat page, line by line\<close>

text \<open>
  A newline never starts or completes a delimiter of the template engine, so a page
  has template syntax only if one of its lines has; and a string found in a line is
  found in the rendered page.
\<close>

lemma syntax_after_newline:
  "has_template_syntax (CHR ''\<newline>'' # r) = has_template_syntax r"
  by (cases r) simp_all

lemma syntax_line:
  "has_template_syntax (l @ CHR ''\<newline>'' # r)
     = (has_template_syntax l \<or> has_template_syntax r)"
proof (induction l)
  case Nil
  show ?case by (simp add: syntax_after_newline)
next
  case (Cons c l)
  then show ?case
    by (cases l) (auto simp: syntax_after_newline)
qed

lemma syntax_lines:
  "has_template_syntax (concat (map (\<lambda>l. l @ ''\<newline>'') ls))
     = list_ex has_template_syntax ls"
  by (induction ls) (simp_all add: syntax_line)

lemma html_no_syntax: "\<not> has_template_syntax CHAT_UI_HTML"
  unfolding CHAT_UI_HTML_def syntax_lines by simp

lemma sublist_strip:
  assumes "sublist x t" and "ss \<noteq> []"
  shows "sublist x (strip_trailing_newline (ps @ t @ ss))"
proof -
  from assms(1) obtain a b where t: "t = a @ x @ b"
    by (auto simp: sublist_def)
  have "sublist x ((ps @ a) @ x @ (b @ zs))" for zs
    by (rule sublist_appendI)
  then have sub: "sublist x (ps @ t @ zs)" for zs
    by (simp add: t)
  have "butlast (ps @ t @ ss) = ps @ t @ butlast ss"
    using assms(2) by (simp add: butlast_append)
  with sub [of ss] sub [of "butlast ss"] show ?thesis
    by (simp add: strip_trailing_newline_def)
qed

lemma sublist_line:
  assumes "t \<in> set ls" and "sublist x t"
  shows "sublist x (strip_trailing_newline (concat (map (\<lambda>l. l @ ''\<newline>'') ls)))"
proof -
  from assms(1) obtain as bs where "ls = as @ t # bs"
    by (auto dest: split_list)
  then have "concat (map (\<lambda>l. l @ ''\<newline>'') ls)
      = concat (map (\<lambda>l. l @ ''\<newline>'') as) @ t
          @ (CHR ''\<newline>'' # concat (map (\<lambda>l. l @ ''\<newline>'') bs))"
    by simp
  then show ?thesis
    using sublist_strip [OF assms(2), of "CHR ''\<newline>'' # concat (map (\<lambda>l. l @ ''\<newline>'') bs)"
                           "concat (map (\<lambda>l. l @ ''\<newline>'') as)"]
    by simp
qed

lemma html_title: "sublist ''Dixie Agent'' (strip_trailing_newline CHAT_UI_HTML)"
  unfolding CHAT_UI_HTML_def
proof (rule sublist_line)
  show "sublist ''Dixie Agent'' (''    <title>'' @ ''Dixie Agent'' @ ''</title>'')"
    by (rule sublist_appendI)
qed simp

section \<open>The claims\<close>

subsection \<open>C1: the success path\<close>

text \<open>
  Claim C1. For a request to \<^verbatim>\<open>POST /agent\<close> whose JSON body has a non-empty
  string field \<^verbatim>\<open>query\<close>, if the agent adapter, called with that string, returns
  an object whose text is the string \<open>t\<close>, then the handler answers with status 200 and
  the JSON body \<^verbatim>\<open>{"response": t, "status": "ok"}\<close>. The adapter receives the query
  unchanged (the call is recorded with \<open>PStr q\<close>, and the world it leaves is the one the
  process continues with), and \<open>t\<close> is returned unchanged.
\<close>

theorem agent_handler_success:
  assumes "json req = Inr (PDict kvs)"
    and "map_of kvs ''query'' = Some (PStr q)"
    and "q \<noteq> []"
    and "adapter (agent s) (PStr q) (world s) = (Inr rd, w')"
    and "text_attr rd = PStr t"
  shows "agent_handler adapter req s =
           (Inr \<lparr>status = 200, mimetype = ''application/json'',
                 body = PDict [(''response'', PStr t), (''status'', PStr ''ok'')]\<rparr>,
            s\<lparr>world := w', calls := calls s @ [PStr q]\<rparr>)"
proof -
  have "truthy (PStr q)" using assms(3) by simp
  from try_truthy [OF assms(1) assms(2) this, of adapter s]
  have "agent_handler_try adapter req s =
          (Inr \<lparr>status = 200, mimetype = ''application/json'',
                body = PDict [(''response'', PStr t), (''status'', PStr ''ok'')]\<rparr>,
           s\<lparr>world := w', calls := calls s @ [PStr q]\<rparr>)"
    using assms(4) assms(5) by simp
  then show ?thesis by (simp add: handler_of_try)
qed

theorem agent_handler_success_witness:
  "agent_handler (\<lambda>a q w. (Inr \<lparr>text_attr = PStr ''There are 12 open roles.''\<rparr>, Suc w))
     \<lparr>json = Inr (PDict [(''query'', PStr ''How many open roles are there?'')])\<rparr>
     (startup Map.empty Map.empty ''instruction'' () (0::nat)) =
   (Inr \<lparr>status = 200, mimetype = ''application/json'',
         body = PDict [(''response'', PStr ''There are 12 open roles.''), (''status'', PStr ''ok'')]\<rparr>,
    (startup Map.empty Map.empty ''instruction'' () (0::nat))
      \<lparr>world := Suc 0, calls := [PStr ''How many open roles are there?'']\<rparr>)"
  using agent_handler_success
    [of "\<lparr>json = Inr (PDict [(''query'', PStr ''How many open roles are there?'')])\<rparr>"
        "[(''query'', PStr ''How many open roles are there?'')]"
        "''How many open roles are there?''"
        "\<lambda>a q w. (Inr \<lparr>text_attr = PStr ''There are 12 open roles.''\<rparr>, Suc w)"
        "startup Map.empty Map.empty ''instruction'' () (0::nat)"
        "\<lparr>text_attr = PStr ''There are 12 open roles.''\<rparr>" "Suc 0"
        "''There are 12 open roles.''"]
  by (simp add: startup_def)

subsection \<open>C2: a missing or empty query\<close>

text \<open>
  A request whose body is JSON \<^verbatim>\<open>null\<close> has no \<^verbatim>\<open>query\<close>, yet it is not answered
  with status 400: \<^verbatim>\<open>data.get\<close> raises \<^verbatim>\<open>AttributeError\<close> on \<^verbatim>\<open>None\<close>, and
  the handler answers with status 500.
\<close>

theorem agent_handler_null_body_counterexample:
  "py_get PNone ''query''
     = Inl (Exc ''AttributeError''
             ([CHR 0x27] @ ''NoneType' object has no attribute 'get'' @ [CHR 0x27]))
   \<and> fst (agent_handler (\<lambda>a q w. (Inr \<lparr>text_attr = PStr ''unused''\<rparr>, w))
          \<lparr>json = Inr PNone\<rparr>
          (startup Map.empty Map.empty ''instruction'' () ()))
     = Inr \<lparr>status = 500, mimetype = ''application/json'',
            body = PDict [(''error'',
              PStr ([CHR 0x27] @ ''NoneType' object has no attribute 'get'' @ [CHR 0x27]))]\<rparr>"
  by (simp add: handler_of_try agent_handler_try_def)

text \<open>
  Claim C2, as the code has it. For a request to \<^verbatim>\<open>POST /agent\<close> whose JSON body is
  an object in which \<^verbatim>\<open>query\<close> is absent or is the empty string, the handler answers
  with status 400 and exactly the body
  \<^verbatim>\<open>{"error": "Missing 'query' field in request"}\<close>, whatever the adapter is; the
  process state, and with it the trace of invocations, is unchanged: the adapter is
  not invoked.
\<close>

theorem agent_handler_missing_query:
  assumes "json req = Inr (PDict kvs)"
    and "map_of kvs ''query'' = None \<or> map_of kvs ''query'' = Some (PStr '''')"
  shows "agent_handler adapter req s =
           (Inr \<lparr>status = 400, mimetype = ''application/json'',
                 body = PDict [(''error'', PStr ''Missing 'query' field in request'')]\<rparr>, s)"
proof -
  have "\<not> truthy (case map_of kvs ''query'' of None \<Rightarrow> PNone | Some v \<Rightarrow> v)"
    using assms(2) by auto
  then have "agent_handler_try adapter req s =
          (Inr \<lparr>status = 400, mimetype = ''application/json'',
                body = PDict [(''error'', PStr ''Missing 'query' field in request'')]\<rparr>, s)"
    by (rule try_falsy [OF assms(1)])
  then show ?thesis by (simp add: handler_of_try)
qed

theorem agent_handler_missing_query_witness:
  "agent_handler (\<lambda>a q w. (Inr \<lparr>text_attr = PStr ''unused''\<rparr>, Suc w))
     \<lparr>json = Inr (PDict [])\<rparr> (startup Map.empty Map.empty ''instruction'' () (0::nat)) =
   (Inr \<lparr>status = 400, mimetype = ''application/json'',
         body = PDict [(''error'', PStr ''Missing 'query' field in request'')]\<rparr>,
    startup Map.empty Map.empty ''instruction'' () (0::nat))
   \<and>
   agent_handler (\<lambda>a q w. (Inr \<lparr>text_attr = PStr ''unused''\<rparr>, Suc w))
     \<lparr>json = Inr (PDict [(''query'', PStr '''')])\<rparr>
     (startup Map.empty Map.empty ''instruction'' () (0::nat)) =
   (Inr \<lparr>status = 400, mimetype = ''application/json'',
         body = PDict [(''error'', PStr ''Missing 'query' field in request'')]\<rparr>,
    startup Map.empty Map.empty ''instruction'' () (0::nat))"
  using agent_handler_missing_query
    [of "\<lparr>json = Inr (PDict [])\<rparr>" "[]"
        "\<lambda>a q w. (Inr \<lparr>text_attr = PStr ''unused''\<rparr>, Suc w)"
        "startup Map.empty Map.empty ''instruction'' () (0::nat)"]
    agent_handler_missing_query
    [of "\<lparr>json = Inr (PDict [(''query'', PStr '''')])\<rparr>" "[(''query'', PStr '''')]"
        "\<lambda>a q w. (Inr \<lparr>text_attr = PStr ''unused''\<rparr>, Suc w)"
        "startup Map.empty Map.empty ''instruction'' () (0::nat)"]
  by simp

subsection \<open>C3: exceptions at the handler boundary\<close>

text \<open>
  The handler's clause is \<^verbatim>\<open>except Exception\<close>. An exception that is not an instance
  of \<^verbatim>\<open>Exception\<close> passes through it: when the adapter call ends in
  \<^verbatim>\<open>SystemExit\<close>, the handler sends no response and the exception leaves it.
\<close>

theorem agent_handler_propagates_counterexample:
  "fst (agent_handler (\<lambda>a q w. (Inl (BaseExc ''SystemExit'' ''1''), w))
          \<lparr>json = Inr (PDict [(''query'', PStr ''How many open roles are there?'')])\<rparr>
          (startup Map.empty Map.empty ''instruction'' () ()))
   = Inl (BaseExc ''SystemExit'' ''1'')"
  by (simp add: handler_of_try agent_handler_try_def generate_response_def startup_def)

text \<open>
  Claim C3, as the code has it. For every request to \<^verbatim>\<open>POST /agent\<close>, an exception
  raised in the \<^verbatim>\<open>try\<close> block (while reading and validating the body, invoking the
  agent adapter, or serialising the response) that is an instance of \<^verbatim>\<open>Exception\<close>
  is caught: the handler answers with status 500 and the body \<^verbatim>\<open>{"error": str(e)}\<close>
  and does not propagate the exception. The failure stays within that request: the
  process goes on in the state the \<^verbatim>\<open>try\<close> block left, with the agent object as
  it was, and a later request is answered exactly as it would be had the failed request
  left nothing behind but the outside world it reached. An exception raised in the
  \<^verbatim>\<open>try\<close> block that is not an instance of \<^verbatim>\<open>Exception\<close> is not caught: it
  leaves the handler, and no response is sent. Nothing else leaves the handler as an
  exception.
\<close>

theorem agent_handler_catches_Exception:
  "(\<forall>e. fst (agent_handler_try adapter req s) = Inl e \<and> isinstance_Exception e \<longrightarrow>
      agent_handler adapter req s =
        (Inr \<lparr>status = 500, mimetype = ''application/json'',
              body = PDict [(''error'', PStr (exn_str e))]\<rparr>,
         snd (agent_handler_try adapter req s))
      \<and> agent (snd (agent_handler adapter req s)) = agent s
      \<and> (\<forall>req'. fst (agent_handler adapter req' (snd (agent_handler adapter req s)))
                  = fst (agent_handler adapter req'
                          (s\<lparr>world := world (snd (agent_handler adapter req s))\<rparr>))))
   \<and> (\<forall>e. fst (agent_handler_try adapter req s) = Inl e \<and> \<not> isinstance_Exception e \<longrightarrow>
         agent_handler adapter req s = (Inl e, snd (agent_handler_try adapter req s)))
   \<and> (\<forall>e. fst (agent_handler adapter req s) = Inl e \<longrightarrow>
         \<not> isinstance_Exception e \<and> fst (agent_handler_try adapter req s) = Inl e)"
proof (intro conjI allI impI)
  fix e
  assume a: "fst (agent_handler_try adapter req s) = Inl e \<and> isinstance_Exception e"
  then show h: "agent_handler adapter req s =
        (Inr \<lparr>status = 500, mimetype = ''application/json'',
              body = PDict [(''error'', PStr (exn_str e))]\<rparr>,
         snd (agent_handler_try adapter req s))"
    by (cases e) (auto simp: handler_of_try split: prod.splits)
  show ag: "agent (snd (agent_handler adapter req s)) = agent s"
    by (rule handler_agent)
  fix req'
  show "fst (agent_handler adapter req' (snd (agent_handler adapter req s)))
          = fst (agent_handler adapter req'
                  (s\<lparr>world := world (snd (agent_handler adapter req s))\<rparr>))"
    by (rule handler_frame) (simp_all add: ag)
next
  fix e
  assume "fst (agent_handler_try adapter req s) = Inl e \<and> \<not> isinstance_Exception e"
  then show "agent_handler adapter req s = (Inl e, snd (agent_handler_try adapter req s))"
    by (cases e) (auto simp: handler_of_try split: prod.splits)
next
  fix e
  assume "fst (agent_handler adapter req s) = Inl e"
  then show "\<not> isinstance_Exception e"
    by (auto simp: handler_of_try split: prod.splits sum.splits pyexn.splits)
next
  fix e
  assume "fst (agent_handler adapter req s) = Inl e"
  then show "fst (agent_handler_try adapter req s) = Inl e"
    by (auto simp: handler_of_try split: prod.splits sum.splits pyexn.splits)
qed

theorem agent_handler_catches_Exception_witness:
  "agent_handler (\<lambda>a q w. (Inl (Exc ''RuntimeError'' ''quota exceeded''), w))
      \<lparr>json = Inr (PDict [(''query'', PStr ''hello'')])\<rparr>
      (startup Map.empty Map.empty ''instruction'' () ()) =
     (Inr \<lparr>status = 500, mimetype = ''application/json'',
           body = PDict [(''error'', PStr ''quota exceeded'')]\<rparr>,
      (startup Map.empty Map.empty ''instruction'' () ())\<lparr>calls := [PStr ''hello'']\<rparr>)
   \<and> agent_handler (\<lambda>a q w. (Inr \<lparr>text_attr = PObj ''Part''\<rparr>, w))
      \<lparr>json = Inr (PDict [(''query'', PStr ''hello'')])\<rparr>
      (startup Map.empty Map.empty ''instruction'' () ()) =
     (Inr \<lparr>status = 500, mimetype = ''application/json'',
           body = PDict [(''error'', PStr ''Object of type Part is not JSON serializable'')]\<rparr>,
      (startup Map.empty Map.empty ''instruction'' () ())\<lparr>calls := [PStr ''hello'']\<rparr>)
   \<and> agent_handler (\<lambda>a q w. (Inr \<lparr>text_attr = PStr ''unused''\<rparr>, w))
      \<lparr>json = Inl (Exc ''BadRequest'' ''400 Bad Request'')\<rparr>
      (startup Map.empty Map.empty ''instruction'' () ()) =
     (Inr \<lparr>status = 500, mimetype = ''application/json'',
           body = PDict [(''error'', PStr ''400 Bad Request'')]\<rparr>,
      startup Map.empty Map.empty ''instruction'' () ())
   \<and> agent_handler (\<lambda>a q w. (Inl (BaseExc ''KeyboardInterrupt'' []), w))
      \<lparr>json = Inr (PDict [(''query'', PStr ''hello'')])\<rparr>
      (startup Map.empty Map.empty ''instruction'' () ()) =
     (Inl (BaseExc ''KeyboardInterrupt'' []),
      (startup Map.empty Map.empty ''instruction'' () ())\<lparr>calls := [PStr ''hello'']\<rparr>)"
proof -
  have t1: "agent_handler_try (\<lambda>a q w. (Inl (Exc ''RuntimeError'' ''quota exceeded''), w))
      \<lparr>json = Inr (PDict [(''query'', PStr ''hello'')])\<rparr>
      (startup Map.empty Map.empty ''instruction'' () ()) =
     (Inl (Exc ''RuntimeError'' ''quota exceeded''),
      (startup Map.empty Map.empty ''instruction'' () ())\<lparr>calls := [PStr ''hello'']\<rparr>)"
    by (simp add: agent_handler_try_def generate_response_def startup_def)
  have t2: "agent_handler_try (\<lambda>a q w. (Inr \<lparr>text_attr = PObj ''Part''\<rparr>, w))
      \<lparr>json = Inr (PDict [(''query'', PStr ''hello'')])\<rparr>
      (startup Map.empty Map.empty ''instruction'' () ()) =
     (Inl (Exc ''TypeError'' ''Object of type Part is not JSON serializable''),
      (startup Map.empty Map.empty ''instruction'' () ())\<lparr>calls := [PStr ''hello'']\<rparr>)"
    by (simp add: agent_handler_try_def generate_response_def jsonify_def startup_def)
  have t3: "agent_handler_try (\<lambda>a q w. (Inr \<lparr>text_attr = PStr ''unused''\<rparr>, w))
      \<lparr>json = Inl (Exc ''BadRequest'' ''400 Bad Request'')\<rparr>
      (startup Map.empty Map.empty ''instruction'' () ()) =
     (Inl (Exc ''BadRequest'' ''400 Bad Request''),
      startup Map.empty Map.empty ''instruction'' () ())"
    by (simp add: agent_handler_try_def)
  have t4: "agent_handler_try (\<lambda>a q w. (Inl (BaseExc ''KeyboardInterrupt'' []), w))
      \<lparr>json = Inr (PDict [(''query'', PStr ''hello'')])\<rparr>
      (startup Map.empty Map.empty ''instruction'' () ()) =
     (Inl (BaseExc ''KeyboardInterrupt'' []),
      (startup Map.empty Map.empty ''instruction'' () ())\<lparr>calls := [PStr ''hello'']\<rparr>)"
    by (simp add: agent_handler_try_def generate_response_def startup_def)
  have c1: "agent_handler (\<lambda>a q w. (Inl (Exc ''RuntimeError'' ''quota exceeded''), w))
      \<lparr>json = Inr (PDict [(''query'', PStr ''hello'')])\<rparr>
      (startup Map.empty Map.empty ''instruction'' () ()) =
     (Inr \<lparr>status = 500, mimetype = ''application/json'',
           body = PDict [(''error'', PStr ''quota exceeded'')]\<rparr>,
      (startup Map.empty Map.empty ''instruction'' () ())\<lparr>calls := [PStr ''hello'']\<rparr>)"
    using agent_handler_catches_Exception
      [of "\<lambda>a q w. (Inl (Exc ''RuntimeError'' ''quota exceeded''), w)"
          "\<lparr>json = Inr (PDict [(''query'', PStr ''hello'')])\<rparr>"
          "startup Map.empty Map.empty ''instruction'' () ()",
       THEN conjunct1, THEN spec, of "Exc ''RuntimeError'' ''quota exceeded''"]
    by (simp add: t1)
  have c2: "agent_handler (\<lambda>a q w. (Inr \<lparr>text_attr = PObj ''Part''\<rparr>, w))
      \<lparr>json = Inr (PDict [(''query'', PStr ''hello'')])\<rparr>
      (startup Map.empty Map.empty ''instruction'' () ()) =
     (Inr \<lparr>status = 500, mimetype = ''application/json'',
           body = PDict [(''error'', PStr ''Object of type Part is not JSON serializable'')]\<rparr>,
      (startup Map.empty Map.empty ''instruction'' () ())\<lparr>calls := [PStr ''hello'']\<rparr>)"
    using agent_handler_catches_Exception
      [of "\<lambda>a q w. (Inr \<lparr>text_attr = PObj ''Part''\<rparr>, w)"
          "\<lparr>json = Inr (PDict [(''query'', PStr ''hello'')])\<rparr>"
          "startup Map.empty Map.empty ''instruction'' () ()",
       THEN conjunct1, THEN spec,
       of "Exc ''TypeError'' ''Object of type Part is not JSON serializable''"]
    by (simp add: t2)
  have c3: "agent_handler (\<lambda>a q w. (Inr \<lparr>text_attr = PStr ''unused''\<rparr>, w))
      \<lparr>json = Inl (Exc ''BadRequest'' ''400 Bad Request'')\<rparr>
      (startup Map.empty Map.empty ''instruction'' () ()) =
     (Inr \<lparr>status = 500, mimetype = ''application/json'',
           body = PDict [(''error'', PStr ''400 Bad Request'')]\<rparr>,
      startup Map.empty Map.empty ''instruction'' () ())"
    using agent_handler_catches_Exception
      [of "\<lambda>a q w. (Inr \<lparr>text_attr = PStr ''unused''\<rparr>, w)"
          "\<lparr>json = Inl (Exc ''BadRequest'' ''400 Bad Request'')\<rparr>"
          "startup Map.empty Map.empty ''instruction'' () ()",
       THEN conjunct1, THEN spec, of "Exc ''BadRequest'' ''400 Bad Request''"]
    by (simp add: t3)
  have c4: "agent_handler (\<lambda>a q w. (Inl (BaseExc ''KeyboardInterrupt'' []), w))
      \<lparr>json = Inr (PDict [(''query'', PStr ''hello'')])\<rparr>
      (startup Map.empty Map.empty ''instruction'' () ()) =
     (Inl (BaseExc ''KeyboardInterrupt'' []),
      (startup Map.empty Map.empty ''instruction'' () ())\<lparr>calls := [PStr ''hello'']\<rparr>)"
    using agent_handler_catches_Exception
      [of "\<lambda>a q w. (Inl (BaseExc ''KeyboardInterrupt'' []), w)"
          "\<lparr>json = Inr (PDict [(''query'', PStr ''hello'')])\<rparr>"
          "startup Map.empty Map.empty ''instruction'' () ()",
       THEN conjunct2, THEN conjunct1, THEN spec, of "BaseExc ''KeyboardInterrupt'' []"]
    by (simp add: t4)
  from c1 c2 c3 c4 show ?thesis by (intro conjI)
qed

subsection \<open>C4: the chat page\<close>

text \<open>
  Claim C4. \<^verbatim>\<open>GET /\<close> takes no parameter and always answers with status 200 and an
  HTML body: the module's page, less the trailing newline that rendering drops. The
  page has no template syntax, so the template engine has nothing to evaluate and
  nothing to fail on. The body contains the string \<^verbatim>\<open>Dixie Agent\<close>.
\<close>

theorem serve_ui_page:
  "serve_ui engine =
     Inr \<lparr>status = 200, mimetype = ''text/html'', body = strip_trailing_newline CHAT_UI_HTML\<rparr>
   \<and> sublist ''Dixie Agent'' (strip_trailing_newline CHAT_UI_HTML)"
  by (simp add: serve_ui_def render_template_string_def make_response_def
        html_no_syntax html_title)

theorem serve_ui_page_witness:
  "serve_ui (\<lambda>t. Inl (Exc ''TemplateSyntaxError'' ''unexpected end of template'')) =
     Inr \<lparr>status = 200, mimetype = ''text/html'', body = strip_trailing_newline CHAT_UI_HTML\<rparr>"
  using serve_ui_page [of "\<lambda>t. Inl (Exc ''TemplateSyntaxError'' ''unexpected end of template'')"]
  by (rule conjunct1)

subsection \<open>C5: the agent's configuration\<close>



subsection \<open>C6: two requests with the same query\<close>

text \<open>
  Claim C6. Two requests to \<^verbatim>\<open>POST /agent\<close> with the same non-empty string
  \<^verbatim>\<open>query\<close>, handled one after the other, invoke the adapter twice, each time with
  that query: the second invocation is made in the world the first one left, and
  nothing is cached. The outcome of each request depends only on its body and on the
  result of its own adapter invocation: any adapter and any process state giving the
  same adapter result give the same outcome. Each response sent has the success or the
  error shape, and the two responses may differ.
\<close>

theorem agent_handler_independent_invocations:
  assumes "json req = Inr (PDict kvs)"
    and "map_of kvs ''query'' = Some (PStr q)"
    and "q \<noteq> []"
    and "agent_handler adapter req s = (r1, s1)"
    and "agent_handler adapter req s1 = (r2, s2)"
  shows "calls s2 = calls s @ [PStr q, PStr q]
     \<and> world s1 = snd (adapter (agent s) (PStr q) (world s))
     \<and> world s2 = snd (adapter (agent s) (PStr q) (world s1))
     \<and> (\<forall>(adapter' :: ('tool', 'w') adapter) t.
           fst (adapter' (agent t) (PStr q) (world t)) = fst (adapter (agent s) (PStr q) (world s))
           \<longrightarrow> fst (agent_handler adapter' req t) = r1)
     \<and> (\<forall>(adapter' :: ('tool', 'w') adapter) t.
           fst (adapter' (agent t) (PStr q) (world t)) = fst (adapter (agent s) (PStr q) (world s1))
           \<longrightarrow> fst (agent_handler adapter' req t) = r2)
     \<and> (\<forall>rv. r1 = Inr rv \<or> r2 = Inr rv \<longrightarrow>
           (status rv = 200
              \<and> (\<exists>t. body rv = PDict [(''response'', t), (''status'', PStr ''ok'')]))
           \<or> (status rv = 500 \<and> (\<exists>m. body rv = PDict [(''error'', PStr m)])))
     \<and> (\<exists>(adapter0 :: (unit, nat) adapter) s0.
           fst (agent_handler adapter0 req s0)
             \<noteq> fst (agent_handler adapter0 req (snd (agent_handler adapter0 req s0))))"
proof -
  have tq: "truthy (PStr q)" using assms(3) by simp
  note call = handler_call [OF assms(1) assms(2) tq]
  have s1: "s1 = s\<lparr>world := snd (adapter (agent s) (PStr q) (world s)),
                    calls := calls s @ [PStr q]\<rparr>"
    using assms(4) by (simp add: call)
  have s2: "s2 = s1\<lparr>world := snd (adapter (agent s1) (PStr q) (world s1)),
                     calls := calls s1 @ [PStr q]\<rparr>"
    using assms(5) by (simp add: call)
  have ag: "agent s1 = agent s" using s1 by simp
  have c1: "calls s2 = calls s @ [PStr q, PStr q]"
    by (subst s2, subst s1) simp
  have w1: "world s1 = snd (adapter (agent s) (PStr q) (world s))"
    by (subst s1) simp
  have w2: "world s2 = snd (adapter (agent s) (PStr q) (world s1))"
    by (subst s2) (simp add: ag)
  have d1: "fst (agent_handler adapter' req t) = r1"
    if "fst (adapter' (agent t) (PStr q) (world t)) = fst (adapter (agent s) (PStr q) (world s))"
    for adapter' :: "('tool', 'w') adapter" and t
    using that assms(4) by (simp add: call)
  have d2: "fst (agent_handler adapter' req t) = r2"
    if "fst (adapter' (agent t) (PStr q) (world t)) = fst (adapter (agent s) (PStr q) (world s1))"
    for adapter' :: "('tool', 'w') adapter" and t
    using that assms(5) by (simp add: call ag)
  have shape: "(status rv = 200
              \<and> (\<exists>t. body rv = PDict [(''response'', t), (''status'', PStr ''ok'')]))
           \<or> (status rv = 500 \<and> (\<exists>m. body rv = PDict [(''error'', PStr m)]))"
    if "r1 = Inr rv \<or> r2 = Inr rv" for rv
    using that assms(4) assms(5)
    by (auto simp: call split: sum.splits option.splits if_splits)
  have differ: "\<exists>(adapter0 :: (unit, nat) adapter) s0.
           fst (agent_handler adapter0 req s0)
             \<noteq> fst (agent_handler adapter0 req (snd (agent_handler adapter0 req s0)))"
    by (rule exI [of _ "\<lambda>a q w. (Inr \<lparr>text_attr = PInt (int w)\<rparr>, Suc w)"],
        rule exI [of _ "startup Map.empty Map.empty ''instruction'' () 0"])
       (simp add: call)
  from c1 w1 w2 d1 d2 shape differ show ?thesis by blast
qed

theorem agent_handler_independent_invocations_witness:
  "agent_handler (\<lambda>a q w. (Inr \<lparr>text_attr = PInt (int w)\<rparr>, Suc w))
      \<lparr>json = Inr (PDict [(''query'', PStr ''How many open roles are there?'')])\<rparr>
      (startup Map.empty Map.empty ''instruction'' () (0::nat)) =
     (Inr \<lparr>status = 200, mimetype = ''application/json'',
           body = PDict [(''response'', PInt 0), (''status'', PStr ''ok'')]\<rparr>,
      (startup Map.empty Map.empty ''instruction'' () (0::nat))
        \<lparr>world := 1, calls := [PStr ''How many open roles are there?'']\<rparr>)
   \<and> agent_handler (\<lambda>a q w. (Inr \<lparr>text_attr = PInt (int w)\<rparr>, Suc w))
      \<lparr>json = Inr (PDict [(''query'', PStr ''How many open roles are there?'')])\<rparr>
      ((startup Map.empty Map.empty ''instruction'' () (0::nat))
        \<lparr>world := 1, calls := [PStr ''How many open roles are there?'']\<rparr>) =
     (Inr \<lparr>status = 200, mimetype = ''application/json'',
           body = PDict [(''response'', PInt 1), (''status'', PStr ''ok'')]\<rparr>,
      (startup Map.empty Map.empty ''instruction'' () (0::nat))
        \<lparr>world := 2, calls := [PStr ''How many open roles are there?'',
                                PStr ''How many open roles are there?'']\<rparr>)
   \<and> calls ((startup Map.empty Map.empty ''instruction'' () (0::nat))
        \<lparr>world := 2, calls := [PStr ''How many open roles are there?'',
                                PStr ''How many open roles are there?'']\<rparr>)
       = calls (startup Map.empty Map.empty ''instruction'' () (0::nat))
           @ [PStr ''How many open roles are there?'', PStr ''How many open roles are there?'']"
proof -
  have j: "json \<lparr>json = Inr (PDict [(''query'', PStr ''How many open roles are there?'')])\<rparr>
             = Inr (PDict [(''query'', PStr ''How many open roles are there?'')])"
    by simp
  have m: "map_of [(''query'', PStr ''How many open roles are there?'')] ''query''
             = Some (PStr ''How many open roles are there?'')"
    by simp
  have n: "''How many open roles are there?'' \<noteq> []" by simp
  have h1: "agent_handler (\<lambda>a q w. (Inr \<lparr>text_attr = PInt (int w)\<rparr>, Suc w))
      \<lparr>json = Inr (PDict [(''query'', PStr ''How many open roles are there?'')])\<rparr>
      (startup Map.empty Map.empty ''instruction'' () (0::nat)) =
     (Inr \<lparr>status = 200, mimetype = ''application/json'',
           body = PDict [(''response'', PInt 0), (''status'', PStr ''ok'')]\<rparr>,
      (startup Map.empty Map.empty ''instruction'' () (0::nat))
        \<lparr>world := 1, calls := [PStr ''How many open roles are there?'']\<rparr>)"
    by (simp add: handler_of_try agent_handler_try_def generate_response_def jsonify_def startup_def)
  have h2: "agent_handler (\<lambda>a q w. (Inr \<lparr>text_attr = PInt (int w)\<rparr>, Suc w))
      \<lparr>json = Inr (PDict [(''query'', PStr ''How many open roles are there?'')])\<rparr>
      ((startup Map.empty Map.empty ''instruction'' () (0::nat))
        \<lparr>world := 1, calls := [PStr ''How many open roles are there?'']\<rparr>) =
     (Inr \<lparr>status = 200, mimetype = ''application/json'',
           body = PDict [(''response'', PInt 1), (''status'', PStr ''ok'')]\<rparr>,
      (startup Map.empty Map.empty ''instruction'' () (0::nat))
        \<lparr>world := 2, calls := [PStr ''How many open roles are there?'',
                                PStr ''How many open roles are there?'']\<rparr>)"
    by (simp add: handler_of_try agent_handler_try_def generate_response_def jsonify_def startup_def)
  have "calls ((startup Map.empty Map.empty ''instruction'' () (0::nat))
        \<lparr>world := 2, calls := [PStr ''How many open roles are there?'',
                                PStr ''How many open roles are there?'']\<rparr>)
       = calls (startup Map.empty Map.empty ''instruction'' () (0::nat))
           @ [PStr ''How many open roles are there?'', PStr ''How many open roles are there?'']"
    by (rule agent_handler_independent_invocations [OF j m n h1 h2, THEN conjunct1])
  with h1 h2 show ?thesis by (intro conjI)
qed

subsection \<open>C7: at most one invocation\<close>

text \<open>
  Claim C7. Handling a request to \<^verbatim>\<open>POST /agent\<close> invokes the agent adapter at most
  once. Either it is not invoked, the process state is unchanged and the response is
  not a success; or it is invoked exactly once, and the outcome is fixed by that one
  result: when the adapter raised, the request fails with that exception (answered
  with status 500, or leaving the handler), and is never tried again; when it
  returned, the response is the success response with the returned text, or a status
  500 error response. No response mixes success and error.
\<close>

theorem agent_handler_single_invocation:
  assumes "agent_handler adapter req s = (r, s')"
  shows "length (calls s') \<le> length (calls s) + 1
     \<and> ((s' = s \<and> (\<forall>rv. r = Inr rv \<longrightarrow> status rv \<noteq> 200))
        \<or> (\<exists>q. s' = s\<lparr>world := snd (adapter (agent s) q (world s)), calls := calls s @ [q]\<rparr>
             \<and> (case fst (adapter (agent s) q (world s)) of
                   Inl e \<Rightarrow>
                     r = Inl e
                     \<or> r = Inr \<lparr>status = 500, mimetype = ''application/json'',
                                body = PDict [(''error'', PStr (exn_str e))]\<rparr>
                 | Inr rd \<Rightarrow>
                     r = Inr \<lparr>status = 200, mimetype = ''application/json'',
                             body = PDict [(''response'', text_attr rd), (''status'', PStr ''ok'')]\<rparr>
                     \<or> (\<exists>m. r = Inr \<lparr>status = 500, mimetype = ''application/json'',
                                       body = PDict [(''error'', PStr m)]\<rparr>))))"
  using assms
proof (cases rule: handler_cases)
  case invalid
  then show ?thesis by simp
next
  case (early_raise e)
  then show ?thesis by simp
next
  case (raised q e)
  then show ?thesis by (intro conjI disjI2 exI [of _ q]) simp_all
next
  case (returned q rd)
  then show ?thesis by (intro conjI disjI2 exI [of _ q]) simp_all
next
  case (not_serializable q rd c)
  then show ?thesis by (intro conjI disjI2 exI [of _ q]) simp_all
qed

theorem agent_handler_single_invocation_witness:
  "agent_handler (\<lambda>a q w. (Inl (Exc ''RuntimeError'' ''quota exceeded''), Suc w))
      \<lparr>json = Inr (PDict [(''query'', PStr ''hello'')])\<rparr>
      (startup Map.empty Map.empty ''instruction'' () (0::nat)) =
     (Inr \<lparr>status = 500, mimetype = ''application/json'',
           body = PDict [(''error'', PStr ''quota exceeded'')]\<rparr>,
      (startup Map.empty Map.empty ''instruction'' () (0::nat))\<lparr>world := 1, calls := [PStr ''hello'']\<rparr>)
   \<and> length (calls ((startup Map.empty Map.empty ''instruction'' () (0::nat))
                      \<lparr>world := 1, calls := [PStr ''hello'']\<rparr>))
       \<le> length (calls (startup Map.empty Map.empty ''instruction'' () (0::nat))) + 1"
  using agent_handler_single_invocation
    [of "\<lambda>a q w. (Inl (Exc ''RuntimeError'' ''quota exceeded''), Suc w)"
        "\<lparr>json = Inr (PDict [(''query'', PStr ''hello'')])\<rparr>"
        "startup Map.empty Map.empty ''instruction'' () (0::nat)"
        "Inr \<lparr>status = 500, mimetype = ''application/json'',
           body = PDict [(''error'', PStr ''quota exceeded'')]\<rparr>"
        "(startup Map.empty Map.empty ''instruction'' () (0::nat))\<lparr>world := 1, calls := [PStr ''hello'']\<rparr>"]
  by (simp add: handler_of_try agent_handler_try_def generate_response_def jsonify_def startup_def)

subsection \<open>C8: a body that is not a JSON object\<close>

text \<open>
  Claim C8. When reading \<^verbatim>\<open>request.json\<close> raises (the body is missing or is not
  valid JSON, or the content type is not JSON: the web framework raises one of its HTTP
  exceptions, which are instances of \<^verbatim>\<open>Exception\<close>), the handler answers with
  status 500 and the stringified exception as the error, not with the 400 response.
  When \<^verbatim>\<open>request.json\<close> yields a value that is not a dict (JSON \<^verbatim>\<open>null\<close>, a
  list, a string, a number), \<^verbatim>\<open>data.get\<close> raises \<^verbatim>\<open>AttributeError\<close> and the
  handler answers with status 500 and that exception's message. In both cases the
  adapter is not invoked.
\<close>

theorem agent_handler_unparseable_body:
  "(\<forall>c m. json req = Inl (Exc c m) \<longrightarrow>
      agent_handler adapter req s =
        (Inr \<lparr>status = 500, mimetype = ''application/json'',
              body = PDict [(''error'', PStr m)]\<rparr>, s))
   \<and> (\<forall>v. json req = Inr v \<and> (\<forall>kvs. v \<noteq> PDict kvs) \<longrightarrow>
      agent_handler adapter req s =
        (Inr \<lparr>status = 500, mimetype = ''application/json'',
              body = PDict [(''error'',
                PStr ([CHR 0x27] @ type_name v @ ''' object has no attribute 'get'' @ [CHR 0x27]))]\<rparr>,
         s))"
proof (intro conjI allI impI)
  fix c m assume "json req = Inl (Exc c m)"
  then have "agent_handler_try adapter req s = (Inl (Exc c m), s)"
    by (rule try_raises_json)
  then show "agent_handler adapter req s =
        (Inr \<lparr>status = 500, mimetype = ''application/json'',
              body = PDict [(''error'', PStr m)]\<rparr>, s)"
    by (simp add: handler_of_try)
next
  fix v assume a: "json req = Inr v \<and> (\<forall>kvs. v \<noteq> PDict kvs)"
  then have "agent_handler_try adapter req s =
     (Inl (Exc ''AttributeError''
        ([CHR 0x27] @ type_name v @ ''' object has no attribute 'get'' @ [CHR 0x27])), s)"
    using try_not_dict [of req v adapter s] by blast
  then show "agent_handler adapter req s =
        (Inr \<lparr>status = 500, mimetype = ''application/json'',
              body = PDict [(''error'',
                PStr ([CHR 0x27] @ type_name v @ ''' object has no attribute 'get'' @ [CHR 0x27]))]\<rparr>,
         s)"
    by (simp add: handler_of_try)
qed

theorem agent_handler_unparseable_body_witness:
  "agent_handler (\<lambda>a q w. (Inr \<lparr>text_attr = PStr ''unused''\<rparr>, Suc w))
      \<lparr>json = Inl (Exc ''UnsupportedMediaType'' ''415 Unsupported Media Type'')\<rparr>
      (startup Map.empty Map.empty ''instruction'' () (0::nat)) =
     (Inr \<lparr>status = 500, mimetype = ''application/json'',
           body = PDict [(''error'', PStr ''415 Unsupported Media Type'')]\<rparr>,
      startup Map.empty Map.empty ''instruction'' () (0::nat))
   \<and> agent_handler (\<lambda>a q w. (Inr \<lparr>text_attr = PStr ''unused''\<rparr>, Suc w))
      \<lparr>json = Inr PNone\<rparr>
      (startup Map.empty Map.empty ''instruction'' () (0::nat)) =
     (Inr \<lparr>status = 500, mimetype = ''application/json'',
           body = PDict [(''error'',
             PStr ([CHR 0x27] @ ''NoneType' object has no attribute 'get'' @ [CHR 0x27]))]\<rparr>,
      startup Map.empty Map.empty ''instruction'' () (0::nat))"
  using agent_handler_unparseable_body
    [of "\<lparr>json = Inl (Exc ''UnsupportedMediaType'' ''415 Unsupported Media Type'')\<rparr>"
        "\<lambda>a q w. (Inr \<lparr>text_attr = PStr ''unused''\<rparr>, Suc w)"
        "startup Map.empty Map.empty ''instruction'' () (0::nat)"]
    agent_handler_unparseable_body
    [of "\<lparr>json = Inr PNone\<rparr>"
        "\<lambda>a q w. (Inr \<lparr>text_attr = PStr ''unused''\<rparr>, Suc w)"
        "startup Map.empty Map.empty ''instruction'' () (0::nat)"]
  by simp

subsection \<open>C9: falsy queries\<close>

text \<open>
  Claim C9. For a request to \<^verbatim>\<open>POST /agent\<close> whose JSON body maps \<^verbatim>\<open>query\<close> to a
  falsy value (\<^verbatim>\<open>null\<close>, \<^verbatim>\<open>false\<close>, the number 0, the empty string, an empty
  list or an empty object), the handler answers with status 400 and the body
  \<^verbatim>\<open>{"error": "Missing 'query' field in request"}\<close> and does not invoke the adapter.
\<close>

theorem agent_handler_falsy_query:
  assumes "json req = Inr (PDict kvs)"
    and "map_of kvs ''query'' = Some v"
    and "v \<in> set [PNone, PBool False, PInt 0, PFloat 0, PStr '''', PList [], PDict []]"
  shows "agent_handler adapter req s =
           (Inr \<lparr>status = 400, mimetype = ''application/json'',
                 body = PDict [(''error'', PStr ''Missing 'query' field in request'')]\<rparr>, s)"
proof -
  have "\<not> truthy v" using assms(3) by auto
  then have "\<not> truthy (case map_of kvs ''query'' of None \<Rightarrow> PNone | Some v \<Rightarrow> v)"
    using assms(2) by simp
  then have "agent_handler_try adapter req s =
          (Inr \<lparr>status = 400, mimetype = ''application/json'',
                body = PDict [(''error'', PStr ''Missing 'query' field in request'')]\<rparr>, s)"
    by (rule try_falsy [OF assms(1)])
  then show ?thesis by (simp add: handler_of_try)
qed

theorem agent_handler_falsy_query_witness:
  "agent_handler (\<lambda>a q w. (Inr \<lparr>text_attr = PStr ''unused''\<rparr>, Suc w))
     \<lparr>json = Inr (PDict [(''query'', PInt 0)])\<rparr>
     (startup Map.empty Map.empty ''instruction'' () (0::nat)) =
   (Inr \<lparr>status = 400, mimetype = ''application/json'',
         body = PDict [(''error'', PStr ''Missing 'query' field in request'')]\<rparr>,
    startup Map.empty Map.empty ''instruction'' () (0::nat))
   \<and>
   agent_handler (\<lambda>a q w. (Inr \<lparr>text_attr = PStr ''unused''\<rparr>, Suc w))
     \<lparr>json = Inr (PDict [(''query'', PDict [])])\<rparr>
     (startup Map.empty Map.empty ''instruction'' () (0::nat)) =
   (Inr \<lparr>status = 400, mimetype = ''application/json'',
         body = PDict [(''error'', PStr ''Missing 'query' field in request'')]\<rparr>,
    startup Map.empty Map.empty ''instruction'' () (0::nat))"
  using agent_handler_falsy_query
    [of "\<lparr>json = Inr (PDict [(''query'', PInt 0)])\<rparr>" "[(''query'', PInt 0)]" "PInt 0"
        "\<lambda>a q w. (Inr \<lparr>text_attr = PStr ''unused''\<rparr>, Suc w)"
        "startup Map.empty Map.empty ''instruction'' () (0::nat)"]
    agent_handler_falsy_query
    [of "\<lparr>json = Inr (PDict [(''query'', PDict [])])\<rparr>" "[(''query'', PDict [])]" "PDict []"
        "\<lambda>a q w. (Inr \<lparr>text_attr = PStr ''unused''\<rparr>, Suc w)"
        "startup Map.empty Map.empty ''instruction'' () (0::nat)"]
  by simp

subsection \<open>C10: the shape of every response\<close>

text \<open>
  Claim C10. Every response that the \<^verbatim>\<open>POST /agent\<close> handler sends is a JSON
  response that serialises, with status 200, 400 or 500, and a body of one of two
  shapes: with status 200, the keys \<^verbatim>\<open>response\<close> and \<^verbatim>\<open>status\<close>, the latter
  mapped to \<^verbatim>\<open>"ok"\<close>; with status 400 or 500, the single key \<^verbatim>\<open>error\<close> mapped to
  a string.
\<close>

theorem agent_handler_response_shape:
  assumes "fst (agent_handler adapter req s) = Inr r"
  shows "mimetype r = ''application/json'' \<and> unserializable (body r) = None
     \<and> ((status r = 200
          \<and> (\<exists>t. body r = PDict [(''response'', t), (''status'', PStr ''ok'')]))
        \<or> ((status r = 400 \<or> status r = 500)
          \<and> (\<exists>m. body r = PDict [(''error'', PStr m)])))"
proof -
  obtain s' where "agent_handler adapter req s = (Inr r, s')"
    using assms by (cases "agent_handler adapter req s") simp
  then show ?thesis
  proof (cases rule: handler_cases)
    case invalid
    then show ?thesis by simp
  next
    case (early_raise e)
    then show ?thesis by (cases "isinstance_Exception e") auto
  next
    case (raised q e)
    then show ?thesis by (cases "isinstance_Exception e") auto
  next
    case (returned q rd)
    then show ?thesis by simp
  next
    case (not_serializable q rd c)
    then show ?thesis by simp
  qed
qed

theorem agent_handler_response_shape_witness:
  "fst (agent_handler (\<lambda>a q w. (Inr \<lparr>text_attr = PStr ''There are 12 open roles.''\<rparr>, Suc w))
     \<lparr>json = Inr (PDict [(''query'', PStr ''How many open roles are there?'')])\<rparr>
     (startup Map.empty Map.empty ''instruction'' () (0::nat))) =
   Inr \<lparr>status = 200, mimetype = ''application/json'',
         body = PDict [(''response'', PStr ''There are 12 open roles.''), (''status'', PStr ''ok'')]\<rparr>
   \<and> mimetype \<lparr>status = 200, mimetype = ''application/json'',
         body = PDict [(''response'', PStr ''There are 12 open roles.''), (''status'', PStr ''ok'')]\<rparr>
     = ''application/json''
   \<and> unserializable (PDict [(''response'', PStr ''There are 12 open roles.''), (''status'', PStr ''ok'')])
     = None"
  using agent_handler_response_shape
    [of "\<lambda>a q w. (Inr \<lparr>text_attr = PStr ''There are 12 open roles.''\<rparr>, Suc w)"
        "\<lparr>json = Inr (PDict [(''query'', PStr ''How many open roles are there?'')])\<rparr>"
        "startup Map.empty Map.empty ''instruction'' () (0::nat)"
        "\<lparr>status = 200, mimetype = ''application/json'',
         body = PDict [(''response'', PStr ''There are 12 open roles.''), (''status'', PStr ''ok'')]\<rparr>"]
  by (simp add: handler_of_try agent_handler_try_def generate_response_def jsonify_def startup_def)

end
